theory Spec2Isabelle
  imports Complex_Main "HOL-Library.Sublist" "HOL-Library.Char_ord" "HOL-Library.List_Lexorder"
begin

section \<open>Data model\<close>

text \<open>
  The dashboard of \<^verbatim>\<open>app.py\<close> works on one pandas data frame. A row of the frame is a
  record; a cell that pandas holds as NaN is \<open>None\<close>. The two columns on which the loader
  calls \<^verbatim>\<open>replace(-1, ...)\<close> keep whatever scalar the CSV reader produced, so they are
  modelled by a datatype of Python scalars. Floating-point numbers are modelled by exact
  rationals.
\<close>

datatype cell = CInt int | CFloat rat | CBool bool | CStr string | CNaN

record raw_posting =
  job_title :: "string option"
  company_name :: "string option"
  location :: "string option"
  industry :: "string option"
  sector :: "string option"
  type_of_ownership :: "string option"
  founded :: cell
  easy_apply :: cell
  salary_estimate :: "string option"
  rating :: "rat option"

record posting = raw_posting +
  avg_salary_k :: "rat option"

section \<open>Loader\<close>

subsection \<open>Company name: \<^verbatim>\<open>str.replace(r"\n.*", "", regex=True)\<close>\<close>

definition newline :: char where
  "newline = CHR 0x0A"

text \<open>
  Substitution of every non-overlapping match of \<^verbatim>\<open>\n.*\<close> by the empty string, scanning
  from the left: a match starts at a newline and greedily takes the characters after it up
  to, and not including, the next newline (the dot does not match a newline).
\<close>

function sub_newline_rest :: "string \<Rightarrow> string" where
  "sub_newline_rest [] = []"
| "sub_newline_rest (c # cs) =
     (if c = newline then sub_newline_rest (dropWhile (\<lambda>x. x \<noteq> newline) cs)
      else c # sub_newline_rest cs)"
  by pat_completeness auto
termination
  by (relation "measure length") (auto simp: length_dropWhile_le less_Suc_eq_le)

definition clean_company_name :: "string option \<Rightarrow> string option" where
  "clean_company_name v = map_option sub_newline_rest v"

subsection \<open>Sentinels: \<^verbatim>\<open>replace(-1, value)\<close>\<close>

text \<open>
  \<^verbatim>\<open>Series.replace(-1, v)\<close> puts \<open>v\<close> in every cell that compares equal to the number -1
  and leaves every other cell as it is. The integer -1 and the float -1.0 compare equal
  to -1; a boolean, a string (also the string "-1") and NaN do not.
\<close>

fun equals_minus_one :: "cell \<Rightarrow> bool" where
  "equals_minus_one (CInt i) = (i = - 1)"
| "equals_minus_one (CFloat q) = (q = - 1)"
| "equals_minus_one (CBool b) = False"
| "equals_minus_one (CStr s) = False"
| "equals_minus_one CNaN = False"

definition replace_minus_one :: "cell \<Rightarrow> cell \<Rightarrow> cell" where
  "replace_minus_one v c = (if equals_minus_one c then v else c)"

subsection \<open>Salary parsing\<close>

definition is_digit :: "char \<Rightarrow> bool" where
  "is_digit c = (48 \<le> (of_char c :: nat) \<and> (of_char c :: nat) \<le> 57)"

text \<open>\<^verbatim>\<open>re.findall(r"\d+", s)\<close>: scan from the left; a match is a greedy run of digits.\<close>

function findall_digits :: "string \<Rightarrow> string list" where
  "findall_digits [] = []"
| "findall_digits (c # cs) =
     (if is_digit c
      then (c # takeWhile is_digit cs) # findall_digits (dropWhile is_digit cs)
      else findall_digits cs)"
  by pat_completeness auto
termination
  by (relation "measure length") (auto simp: length_dropWhile_le less_Suc_eq_le)

text \<open>\<^verbatim>\<open>int(n)\<close> on a string of decimal digits.\<close>

definition py_int :: "string \<Rightarrow> int" where
  "py_int ds = foldl (\<lambda>a c. 10 * a + (int (of_char c) - 48)) 0 ds"

text \<open>\<^verbatim>\<open>np.mean\<close> on a non-empty list of integers.\<close>

definition mean :: "int list \<Rightarrow> rat" where
  "mean ns = of_int (sum_list ns) / of_nat (length ns)"

definition parse_salary :: "string option \<Rightarrow> rat option" where
  "parse_salary s =
     (case s of
        None \<Rightarrow> None
      | Some str \<Rightarrow>
          (let nums = map py_int (findall_digits str)
           in if nums \<noteq> [] then Some (mean nums) else None))"

subsection \<open>\<^verbatim>\<open>load_data\<close>\<close>

text \<open>
  The loader works column by column on the frame that \<^verbatim>\<open>read_csv\<close> returned; on one row
  it does the following. Header normalisation only renames the columns and is not modelled.
\<close>

definition load_row :: "raw_posting \<Rightarrow> posting" where
  "load_row r =
     raw_posting.extend
       (r\<lparr>company_name := clean_company_name (company_name r),
          founded := replace_minus_one CNaN (founded r),
          easy_apply := replace_minus_one (CBool False) (easy_apply r)\<rparr>)
       \<lparr>avg_salary_k = parse_salary (salary_estimate r)\<rparr>"


section \<open>Sidebar filters\<close>

text \<open>
  The three multiselect widgets return lists of strings (their options are the non-missing
  values of a column). An empty list is falsy, so its facet is skipped.
\<close>

record criteria =
  location_sel :: "string list"
  industry_sel :: "string list"
  ownership_sel :: "string list"

text \<open>\<^verbatim>\<open>Series.isin(values)\<close> on a column of strings: a missing cell is in no list of strings.\<close>

definition isin :: "string option \<Rightarrow> string list \<Rightarrow> bool" where
  "isin v sel = (case v of None \<Rightarrow> False | Some s \<Rightarrow> s \<in> set sel)"

definition filtered_df :: "posting list \<Rightarrow> criteria \<Rightarrow> posting list" where
  "filtered_df df c =
     (let f0 = df;
          f1 = (if location_sel c \<noteq> []
                then filter (\<lambda>r. isin (location r) (location_sel c)) f0 else f0);
          f2 = (if industry_sel c \<noteq> []
                then filter (\<lambda>r. isin (industry r) (industry_sel c)) f1 else f1);
          f3 = (if ownership_sel c \<noteq> []
                then filter (\<lambda>r. isin (type_of_ownership r) (ownership_sel c)) f2 else f2)
      in f3)"

section \<open>Aggregations\<close>

subsection \<open>pandas column operations\<close>

text \<open>Missing cells are skipped by \<^verbatim>\<open>nunique\<close>, \<^verbatim>\<open>mean\<close> and \<^verbatim>\<open>value_counts\<close> (their defaults).\<close>

definition dropna :: "'a option list \<Rightarrow> 'a option list" where
  "dropna col = filter (\<lambda>v. v \<noteq> None) col"

text \<open>
  The distinct values of a column in the order of their first occurrence, as the hash table
  behind \<^verbatim>\<open>unique\<close> and \<^verbatim>\<open>value_counts\<close> yields them; \<open>eq\<close> is the equality of the keys.
\<close>

fun unique_first_by :: "('a \<Rightarrow> 'a \<Rightarrow> bool) \<Rightarrow> 'a list \<Rightarrow> 'a list" where
  "unique_first_by eq [] = []"
| "unique_first_by eq (x # xs) = x # unique_first_by eq (filter (\<lambda>y. \<not> eq x y) xs)"

definition nunique :: "'a option list \<Rightarrow> nat" where
  "nunique col = length (unique_first_by (=) (dropna col))"

text \<open>
  \<^verbatim>\<open>value_counts()\<close>: one entry per distinct non-missing value with the number of its
  occurrences, sorted by that number, largest first. pandas fixes no order among entries
  with equal numbers. The sort used here leaves them in the order of first occurrence, one
  of the orders the library may return and the one it returns on a table of two groups;
  no property below depends on that order except where a table is evaluated.
\<close>

definition value_counts_by ::
  "('a option \<Rightarrow> 'a option \<Rightarrow> bool) \<Rightarrow> 'a option list \<Rightarrow> ('a option \<times> nat) list" where
  "value_counts_by eq col =
     (let present = dropna col;
          groups = map (\<lambda>k. (k, length (filter (eq k) present))) (unique_first_by eq present)
      in sort_key (\<lambda>g. - int (snd g)) groups)"

definition value_counts :: "'a option list \<Rightarrow> ('a option \<times> nat) list" where
  "value_counts col = value_counts_by (=) col"

text \<open>\<^verbatim>\<open>Series.mean()\<close>: the mean of the non-missing values, NaN when there is none.\<close>

definition series_mean :: "rat option list \<Rightarrow> rat option" where
  "series_mean col =
     (let vs = map the (dropna col)
      in if vs = [] then None else Some (sum_list vs / of_nat (length vs)))"

text \<open>
  \<^verbatim>\<open>round(x, 2)\<close>: NaN stays NaN. On a number the result is a float near a multiple of
  1/100; which one depends on the binary floating-point value of \<open>x\<close>, so the rounding of
  a number is the parameter \<open>rnd\<close>.
\<close>

definition round2 :: "(rat \<Rightarrow> rat) \<Rightarrow> rat option \<Rightarrow> rat option" where
  "round2 rnd x = map_option rnd x"

text \<open>
  Equality of Python scalars as the keys of a hash table: numbers and booleans compare by
  value (\<^verbatim>\<open>True == 1\<close>, \<^verbatim>\<open>1 == 1.0\<close>), strings with strings.
\<close>

fun cell_number :: "cell \<Rightarrow> rat option" where
  "cell_number (CInt i) = Some (of_int i)"
| "cell_number (CFloat q) = Some q"
| "cell_number (CBool b) = Some (if b then 1 else 0)"
| "cell_number (CStr s) = None"
| "cell_number CNaN = None"

definition py_eq :: "cell \<Rightarrow> cell \<Rightarrow> bool" where
  "py_eq a b =
     (case (cell_number a, cell_number b) of
        (Some x, Some y) \<Rightarrow> x = y
      | (None, None) \<Rightarrow> a = b
      | _ \<Rightarrow> False)"

definition cell_value :: "cell \<Rightarrow> cell option" where
  "cell_value c = (if c = CNaN then None else Some c)"

subsection \<open>The dashboard's metrics and tables\<close>

definition total_jobs :: "posting list \<Rightarrow> nat" where
  "total_jobs df = length df"

definition companies :: "posting list \<Rightarrow> nat" where
  "companies df = nunique (map company_name df)"

definition locations :: "posting list \<Rightarrow> nat" where
  "locations df = nunique (map location df)"

definition avg_rating :: "(rat \<Rightarrow> rat) \<Rightarrow> posting list \<Rightarrow> rat option" where
  "avg_rating rnd df = round2 rnd (series_mean (map rating df))"

definition loc_df :: "posting list \<Rightarrow> (string option \<times> nat) list" where
  "loc_df df = value_counts (map location df)"

definition comp_df :: "posting list \<Rightarrow> (string option \<times> nat) list" where
  "comp_df df = take 10 (value_counts (map company_name df))"

definition title_df :: "posting list \<Rightarrow> (string option \<times> nat) list" where
  "title_df df = take 10 (value_counts (map job_title df))"

text \<open>
  The two pie charts receive the filtered frame itself with the name of the column that
  labels the sectors: the labels handed over are the whole column. The histogram receives
  the rows whose \<open>avg_salary_k\<close> is present.
\<close>

definition fig_ind_names :: "posting list \<Rightarrow> string option list" where
  "fig_ind_names df = map industry df"

definition fig_sec_names :: "posting list \<Rightarrow> string option list" where
  "fig_sec_names df = map sector df"

definition salary_df :: "posting list \<Rightarrow> posting list" where
  "salary_df df = filter (\<lambda>r. avg_salary_k r \<noteq> None) df"

definition easy_df :: "posting list \<Rightarrow> (cell option \<times> nat) list" where
  "easy_df df =
     value_counts_by (\<lambda>a b. case (a, b) of (Some x, Some y) \<Rightarrow> py_eq x y | _ \<Rightarrow> False)
       (map (\<lambda>r. cell_value (easy_apply r)) df)"

section \<open>Example rows\<close>

definition example_raw :: "string option \<Rightarrow> raw_posting" where
  "example_raw sal =
     \<lparr>job_title = Some ''Analyst'', company_name = Some ''Acme'', location = Some ''NY'',
      industry = None, sector = None, type_of_ownership = None, founded = CInt (- 1),
      easy_apply = CInt (- 1), salary_estimate = sal, rating = None\<rparr>"

section \<open>Example tables\<close>

definition example_posting ::
  "string option \<Rightarrow> string option \<Rightarrow> string option \<Rightarrow> rat option \<Rightarrow> posting" where
  "example_posting loc cname ind rt =
     \<lparr>job_title = Some ''Business Analyst'', company_name = cname, location = loc,
      industry = ind, sector = None, type_of_ownership = Some ''Private'', founded = CNaN,
      easy_apply = CBool False, salary_estimate = None, rating = rt, avg_salary_k = None\<rparr>"

definition example_table :: "posting list" where
  "example_table =
     [example_posting (Some ''NY'') (Some ''B'') (Some ''Finance'') (Some 1),
      example_posting (Some ''NY'') (Some ''A'') None (Some 1),
      example_posting (Some ''LA'') (Some ''A'') (Some ''Finance'') (Some 2),
      example_posting None None (Some ''Health'') None]"

text \<open>
  Eleven companies with one posting each, and a table of their counts that lists them
  from the last label to the first.
\<close>

definition eleven_companies :: "string option list" where
  "eleven_companies =
     map Some [''A'', ''B'', ''C'', ''D'', ''E'', ''F'', ''G'', ''H'', ''I'', ''J'', ''K'']"

definition eleven_counts :: "(string option \<times> nat) list" where
  "eleven_counts =
     map (\<lambda>n. (Some n, 1)) [''K'', ''J'', ''I'', ''H'', ''G'', ''F'', ''E'', ''D'', ''C'', ''B'', ''A'']"

text \<open>Two companies with one posting each, the later label first.\<close>

definition tie_table :: "posting list" where
  "tie_table =
     [example_posting (Some ''NY'') (Some ''B'') None None,
      example_posting (Some ''NY'') (Some ''A'') None None]"

definition no_criteria :: criteria where
  "no_criteria = \<lparr>location_sel = [], industry_sel = [], ownership_sel = []\<rparr>"

section \<open>Notions used to state the properties\<close>

text \<open>A row passes the filter when it passes every facet that has a selection.\<close>

definition keeps :: "criteria \<Rightarrow> posting \<Rightarrow> bool" where
  "keeps c r \<longleftrightarrow>
     (location_sel c = [] \<or> isin (location r) (location_sel c))
     \<and> (industry_sel c = [] \<or> isin (industry r) (industry_sel c))
     \<and> (ownership_sel c = [] \<or> isin (type_of_ownership r) (ownership_sel c))"

text \<open>The number of cells of a column equal to a value.\<close>

definition occurrences :: "'a list \<Rightarrow> 'a \<Rightarrow> nat" where
  "occurrences col k = length (filter (\<lambda>v. v = k) col)"

text \<open>
  A table of counts of the column \<open>col\<close>, in any of the orders \<^verbatim>\<open>value_counts()\<close> may give
  it: one row per present label, paired with the number of its occurrences, larger counts
  first.
\<close>

definition count_desc_listing :: "'a option list \<Rightarrow> ('a option \<times> nat) list \<Rightarrow> bool" where
  "count_desc_listing col vc \<longleftrightarrow>
     distinct (map fst vc)
     \<and> set vc = (\<lambda>k. (k, occurrences col k)) ` (set col - {None})
     \<and> sorted_wrt (\<lambda>p q. snd q \<le> snd p) vc"

text \<open>
  A table \<open>res\<close> of at most ten groups of the column \<open>col\<close>: larger counts first, one row
  per label, every label present in the column and paired with the number of its
  occurrences, ten rows or all the groups there are, and no group left out has more
  occurrences than a group listed. Nothing is said about the order of equal counts.
\<close>

definition top_groups_by_count :: "'a option list \<Rightarrow> ('a option \<times> nat) list \<Rightarrow> bool" where
  "top_groups_by_count col res \<longleftrightarrow>
     sorted_wrt (\<lambda>p q. snd q \<le> snd p) res
     \<and> distinct (map fst res)
     \<and> (\<forall>g\<in>set res. fst g \<noteq> None \<and> fst g \<in> set col \<and> snd g = occurrences col (fst g))
     \<and> length res = min 10 (card (set col - {None}))
     \<and> (\<forall>k\<in>set col. k \<noteq> None \<and> k \<notin> fst ` set res \<longrightarrow>
          (\<forall>g\<in>set res. occurrences col k \<le> snd g))"

text \<open>
  The order the specification words for the two top-10 tables: larger count first, and
  among equal counts the smaller label first.
\<close>

definition count_then_label :: "string option \<times> nat \<Rightarrow> string option \<times> nat \<Rightarrow> bool" where
  "count_then_label p q \<longleftrightarrow>
     snd q < snd p
     \<or> (snd p = snd q \<and> (case (fst p, fst q) of (Some a, Some b) \<Rightarrow> a < b | _ \<Rightarrow> False))"

fun is_boolean :: "cell \<Rightarrow> bool" where
  "is_boolean (CBool b) = True"
| "is_boolean c = False"

section \<open>Company name cleaning\<close>

lemma sub_newline_rest_at_newline:
  "cs = [] \<or> hd cs = newline \<Longrightarrow> sub_newline_rest cs = []"
proof (induction cs rule: sub_newline_rest.induct)
  case 1
  show ?case by simp
next
  case (2 c cs)
  then have c: "c = newline" by simp
  have "dropWhile (\<lambda>x. x \<noteq> newline) cs = [] \<or> hd (dropWhile (\<lambda>x. x \<noteq> newline) cs) = newline"
    using hd_dropWhile [of "\<lambda>x. x \<noteq> newline" cs] by blast
  with 2 c show ?case by simp
qed

lemma sub_newline_rest_takeWhile:
  "sub_newline_rest s = takeWhile (\<lambda>x. x \<noteq> newline) s"
proof (induction s)
  case Nil
  show ?case by simp
next
  case (Cons c cs)
  show ?case
  proof (cases "c = newline")
    case True
    have "sub_newline_rest (c # cs) = []"
      by (rule sub_newline_rest_at_newline) (simp add: True)
    with True show ?thesis by simp
  next
    case False
    with Cons show ?thesis by simp
  qed
qed

text \<open>
  C5. Cleaning a company name cuts it at the first newline: the result is the part of the
  string before the first newline, whatever follows (more newlines included) is dropped,
  and a name with no newline is unchanged. An absent name stays absent.
\<close>

theorem clean_company_name_truncates:
  "(newline \<notin> set pre \<longrightarrow> clean_company_name (Some (pre @ newline # rest)) = Some pre)
   \<and> (newline \<notin> set s \<longrightarrow> clean_company_name (Some s) = Some s)
   \<and> clean_company_name (Some s) = Some (takeWhile (\<lambda>x. x \<noteq> newline) s)
   \<and> clean_company_name None = None"
proof -
  have a: "newline \<notin> set pre \<Longrightarrow>
      takeWhile (\<lambda>x. x \<noteq> newline) (pre @ newline # rest) = pre"
    by (induction pre) auto
  have c: "newline \<notin> set s \<Longrightarrow> takeWhile (\<lambda>x. x \<noteq> newline) s = s"
    by (induction s) auto
  show ?thesis
    by (simp add: clean_company_name_def sub_newline_rest_takeWhile a c)
qed

theorem clean_company_name_truncates_witness:
  "newline \<notin> set ''Acme Corp'' \<and> newline \<notin> set ''Beta LLC''
   \<and> clean_company_name (Some (''Acme Corp'' @ newline # ''3.5'')) = Some ''Acme Corp''
   \<and> clean_company_name (Some ''Beta LLC'') = Some ''Beta LLC''"
  using clean_company_name_truncates [of "''Acme Corp''" "''3.5''" "''Beta LLC''"]
  by (simp add: newline_def)

section \<open>Salary parsing\<close>





lemma findall_digits_run:
  assumes "r \<noteq> []" and a: "\<forall>c\<in>set r. is_digit c"
  shows "findall_digits r = [r]"
proof (cases r)
  case Nil then show ?thesis using assms by simp
next
  case (Cons c cs)
  have t: "takeWhile is_digit cs = cs" and d: "dropWhile is_digit cs = []"
    using a Cons by (simp_all add: takeWhile_eq_all_conv)
  show ?thesis using a Cons by (simp add: t d)
qed




lemma py_int_snoc: "py_int (ds @ [d]) = 10 * py_int ds + (int (of_char d) - 48)"
  by (simp add: py_int_def)

lemma py_int_nonneg: "\<forall>c\<in>set ds. is_digit c \<Longrightarrow> 0 \<le> py_int ds"
proof (induction ds rule: rev_induct)
  case Nil
  show ?case by (simp add: py_int_def)
next
  case (snoc d ds)
  then have "0 \<le> py_int ds" and "48 \<le> (of_char d :: nat)" by (simp_all add: is_digit_def)
  then show ?case unfolding py_int_snoc by linarith
qed




section \<open>Filtering\<close>

lemma filtered_df_filter: "filtered_df df c = filter (keeps c) df"
  by (auto simp: filtered_df_def keeps_def Let_def intro: filter_cong)

text \<open>
  C2. Every row of the filtered table lies in the selected set of each facet that has a
  selection; the filtered table is exactly the rows of the table that pass all three
  facets (logical AND), in their order and unchanged, hence a sub-list and a subset of the
  table; with no facet selected it is the table itself.
\<close>

theorem filtered_df_pure_subset:
  "(\<forall>r\<in>set (filtered_df df c).
      (location_sel c \<noteq> [] \<longrightarrow> isin (location r) (location_sel c))
      \<and> (industry_sel c \<noteq> [] \<longrightarrow> isin (industry r) (industry_sel c))
      \<and> (ownership_sel c \<noteq> [] \<longrightarrow> isin (type_of_ownership r) (ownership_sel c)))
   \<and> filtered_df df c =
       filter (\<lambda>r. (location_sel c = [] \<or> isin (location r) (location_sel c))
                  \<and> (industry_sel c = [] \<or> isin (industry r) (industry_sel c))
                  \<and> (ownership_sel c = [] \<or> isin (type_of_ownership r) (ownership_sel c))) df
   \<and> subseq (filtered_df df c) df
   \<and> set (filtered_df df c) \<subseteq> set df
   \<and> (location_sel c = [] \<and> industry_sel c = [] \<and> ownership_sel c = []
        \<longrightarrow> filtered_df df c = df)"
proof -
  have f: "filtered_df df c = filter (keeps c) df" by (rule filtered_df_filter)
  have 1: "\<forall>r\<in>set (filtered_df df c).
      (location_sel c \<noteq> [] \<longrightarrow> isin (location r) (location_sel c))
      \<and> (industry_sel c \<noteq> [] \<longrightarrow> isin (industry r) (industry_sel c))
      \<and> (ownership_sel c \<noteq> [] \<longrightarrow> isin (type_of_ownership r) (ownership_sel c))"
    unfolding f by (auto simp: keeps_def)
  have 2: "filtered_df df c =
       filter (\<lambda>r. (location_sel c = [] \<or> isin (location r) (location_sel c))
                  \<and> (industry_sel c = [] \<or> isin (industry r) (industry_sel c))
                  \<and> (ownership_sel c = [] \<or> isin (type_of_ownership r) (ownership_sel c))) df"
    unfolding f keeps_def ..
  have 3: "subseq (filtered_df df c) df" unfolding f by simp
  have 4: "set (filtered_df df c) \<subseteq> set df" unfolding f by simp
  have 5: "location_sel c = [] \<and> industry_sel c = [] \<and> ownership_sel c = []
        \<longrightarrow> filtered_df df c = df"
    by (simp add: filtered_df_def)
  from 1 2 3 4 5 show ?thesis by blast
qed

theorem filtered_df_pure_subset_witness:
  "filtered_df example_table \<lparr>location_sel = [''NY''], industry_sel = [''Finance''], ownership_sel = []\<rparr>
     = [example_posting (Some ''NY'') (Some ''B'') (Some ''Finance'') (Some 1)]
   \<and> isin (location (example_posting (Some ''NY'') (Some ''B'') (Some ''Finance'') (Some 1))) [''NY'']
   \<and> filtered_df example_table no_criteria = example_table"
  using filtered_df_pure_subset [of example_table
      "\<lparr>location_sel = [''NY''], industry_sel = [''Finance''], ownership_sel = []\<rparr>"]
    filtered_df_pure_subset [of example_table no_criteria]
  by (simp add: example_table_def example_posting_def isin_def no_criteria_def)

text \<open>
  C7. Filtering with no selection returns the table, once or twice; filtering twice with
  the same criteria gives what filtering once gives. Every aggregation is a function of
  the filtered table alone, so it gives the same result each time it is applied to it.
\<close>

theorem filtered_df_no_criteria_identity:
  "filtered_df df no_criteria = df
   \<and> filtered_df (filtered_df df no_criteria) no_criteria = df
   \<and> filtered_df (filtered_df df c) c = filtered_df df c"
proof -
  have a: "filtered_df t no_criteria = t" for t
    by (simp add: filtered_df_def no_criteria_def)
  have b: "filtered_df (filtered_df df c) c = filtered_df df c"
    by (simp add: filtered_df_filter)
  show ?thesis by (simp add: a b)
qed

theorem filtered_df_no_criteria_identity_witness:
  "filtered_df example_table no_criteria = example_table
   \<and> filtered_df (filtered_df example_table no_criteria) no_criteria = example_table"
  using filtered_df_no_criteria_identity [of example_table no_criteria]
  by simp

section \<open>Distinct values of a column\<close>

lemma unique_first_eq_Cons:
  "unique_first_by (=) (x # xs) = x # unique_first_by (=) (filter (\<lambda>y. y \<noteq> x) xs)"
proof -
  have "(\<lambda>y. \<not> x = y) = (\<lambda>y. y \<noteq> x)" by auto
  then show ?thesis by simp
qed

lemma set_unique_first: "set (unique_first_by (=) xs) = set xs"
proof (induction "length xs" arbitrary: xs rule: less_induct)
  case less
  show ?case
  proof (cases xs)
    case Nil
    then show ?thesis by simp
  next
    case (Cons x ys)
    have "length (filter (\<lambda>y. y \<noteq> x) ys) < length xs"
      using Cons by (simp add: le_imp_less_Suc)
    then have "set (unique_first_by (=) (filter (\<lambda>y. y \<noteq> x) ys)) = set (filter (\<lambda>y. y \<noteq> x) ys)"
      by (rule less)
    then show ?thesis unfolding Cons unique_first_eq_Cons by auto
  qed
qed

lemma distinct_unique_first: "distinct (unique_first_by (=) xs)"
proof (induction "length xs" arbitrary: xs rule: less_induct)
  case less
  show ?case
  proof (cases xs)
    case Nil
    then show ?thesis by simp
  next
    case (Cons x ys)
    have "length (filter (\<lambda>y. y \<noteq> x) ys) < length xs"
      using Cons by (simp add: le_imp_less_Suc)
    then have "distinct (unique_first_by (=) (filter (\<lambda>y. y \<noteq> x) ys))"
      by (rule less)
    then show ?thesis unfolding Cons unique_first_eq_Cons by (simp add: set_unique_first)
  qed
qed

lemma sum_counts_unique_first:
  "sum_list (map (\<lambda>k. length (filter ((=) k) xs)) (unique_first_by (=) xs)) = length xs"
proof (induction "length xs" arbitrary: xs rule: less_induct)
  case less
  show ?case
  proof (cases xs)
    case Nil
    then show ?thesis by simp
  next
    case (Cons x ys)
    let ?zs = "filter (\<lambda>y. y \<noteq> x) ys"
    have "length ?zs < length xs"
      using Cons by (simp add: le_imp_less_Suc)
    then have ih: "sum_list (map (\<lambda>k. length (filter ((=) k) ?zs)) (unique_first_by (=) ?zs)) = length ?zs"
      by (rule less)
    have same: "length (filter ((=) k) (x # ys)) = length (filter ((=) k) ?zs)"
      if "k \<in> set (unique_first_by (=) ?zs)" for k
    proof -
      from that have "k \<noteq> x" by (simp add: set_unique_first)
      moreover have "filter ((=) k) ?zs = filter ((=) k) ys"
        using \<open>k \<noteq> x\<close> by (auto intro: filter_cong)
      ultimately show ?thesis by simp
    qed
    have m: "map (\<lambda>k. length (filter ((=) k) (x # ys))) (unique_first_by (=) ?zs)
        = map (\<lambda>k. length (filter ((=) k) ?zs)) (unique_first_by (=) ?zs)"
      by (rule map_cong [OF refl]) (rule same)
    have "sum_list (map (\<lambda>k. length (filter ((=) k) (x # ys))) (unique_first_by (=) (x # ys)))
        = length (filter ((=) x) (x # ys))
          + sum_list (map (\<lambda>k. length (filter ((=) k) (x # ys))) (unique_first_by (=) ?zs))"
      by (simp only: unique_first_eq_Cons list.map sum_list.Cons)
    also have "\<dots> = length (filter ((=) x) (x # ys)) + length ?zs"
      by (simp only: m ih)
    also have "\<dots> = Suc (length (filter ((=) x) ys)) + length ?zs"
      by simp
    also have "\<dots> = Suc (length ys)"
    proof -
      have "filter ((=) x) ys = filter (\<lambda>y. y = x) ys" by (rule filter_cong) auto
      then show ?thesis using sum_length_filter_compl [of "\<lambda>y. y = x" ys] by simp
    qed
    finally show ?thesis unfolding Cons by simp
  qed
qed

section \<open>Properties of \<^verbatim>\<open>value_counts\<close>\<close>

lemma sum_list_insort_key:
  "sum_list (map g (insort_key f x xs)) = (g x :: nat) + sum_list (map g xs)"
  by (induction xs) simp_all

lemma sum_list_sort_key: "sum_list (map g (sort_key f xs)) = (sum_list (map g xs) :: nat)"
  by (induction xs) (simp_all add: sum_list_insort_key)

lemma value_counts_unfold:
  "value_counts col =
     sort_key (\<lambda>g. - int (snd g))
       (map (\<lambda>k. (k, length (filter ((=) k) (dropna col)))) (unique_first_by (=) (dropna col)))"
  by (simp add: value_counts_def value_counts_by_def Let_def)

lemma set_dropna: "set (dropna col) = set col - {None}"
  by (auto simp: dropna_def)

lemma occurrences_dropna:
  "k \<noteq> None \<Longrightarrow> length (filter ((=) k) (dropna col)) = occurrences col k"
proof -
  assume "k \<noteq> None"
  then have "filter ((=) k) (dropna col) = filter (\<lambda>v. v = k) col"
    unfolding dropna_def filter_filter by (intro filter_cong) auto
  then show ?thesis by (simp add: occurrences_def)
qed

lemma set_value_counts:
  "set (value_counts col) = (\<lambda>k. (k, occurrences col k)) ` (set col - {None})"
proof -
  have "set (value_counts col)
      = (\<lambda>k. (k, length (filter ((=) k) (dropna col)))) ` (set col - {None})"
    by (simp add: value_counts_unfold set_unique_first set_dropna)
  also have "\<dots> = (\<lambda>k. (k, occurrences col k)) ` (set col - {None})"
    by (rule image_cong) (simp_all add: occurrences_dropna)
  finally show ?thesis .
qed

lemma distinct_labels_value_counts: "distinct (map fst (value_counts col))"
proof -
  let ?G = "map (\<lambda>k. (k, length (filter ((=) k) (dropna col)))) (unique_first_by (=) (dropna col))"
  have "map fst ?G = unique_first_by (=) (dropna col)" by (simp add: comp_def)
  then have "distinct (map fst ?G)" by (simp add: distinct_unique_first)
  then have "distinct ?G \<and> inj_on fst (set ?G)" by (simp only: distinct_map)
  then have "distinct (sort_key (\<lambda>g. - int (snd g)) ?G)
      \<and> inj_on fst (set (sort_key (\<lambda>g. - int (snd g)) ?G))" by simp
  then show ?thesis unfolding value_counts_unfold by (simp only: distinct_map)
qed

lemma length_value_counts: "length (value_counts col) = card (set col - {None})"
proof -
  have "length (value_counts col) = length (unique_first_by (=) (dropna col))"
    by (simp add: value_counts_unfold)
  also have "\<dots> = card (set (unique_first_by (=) (dropna col)))"
    by (simp add: distinct_card distinct_unique_first)
  finally show ?thesis by (simp add: set_unique_first set_dropna)
qed

lemma sum_value_counts: "sum_list (map snd (value_counts col)) = length (dropna col)"
  using sum_counts_unique_first [of "dropna col"]
  by (simp add: value_counts_unfold sum_list_sort_key comp_def)

lemma sorted_value_counts: "sorted_wrt (\<lambda>p q. snd q \<le> snd p) (value_counts col)"
proof -
  let ?f = "\<lambda>g :: 'a option \<times> nat. - int (snd g)"
  have "sorted (map ?f (value_counts col))"
    unfolding value_counts_unfold by (rule sorted_sort_key)
  then have "sorted_wrt (\<lambda>p q. ?f p \<le> ?f q) (value_counts col)"
    by (simp only: sorted_map)
  then show ?thesis by simp
qed

lemma value_counts_listing: "count_desc_listing col (value_counts col)"
  unfolding count_desc_listing_def
  using distinct_labels_value_counts [of col] set_value_counts [of col] sorted_value_counts [of col]
  by blast

section \<open>Top-10 tables and counts by location\<close>

lemma top_groups_take_listing:
  assumes "count_desc_listing col vc"
  shows "top_groups_by_count col (take 10 vc)"
proof -
  from assms have dv: "distinct (map fst vc)"
    and sv: "set vc = (\<lambda>k. (k, occurrences col k)) ` (set col - {None})"
    and ov: "sorted_wrt (\<lambda>p q. snd q \<le> snd p) vc"
    unfolding count_desc_listing_def by blast+
  have s: "sorted_wrt (\<lambda>p q. snd q \<le> snd p) (take 10 vc)"
    using ov by (rule sorted_wrt_take)
  have d: "distinct (map fst (take 10 vc))"
    using dv by (simp add: take_map [symmetric] distinct_take)
  have e: "\<forall>g\<in>set (take 10 vc). fst g \<noteq> None \<and> fst g \<in> set col \<and> snd g = occurrences col (fst g)"
  proof
    fix g assume "g \<in> set (take 10 vc)"
    then have "g \<in> set vc" by (rule in_set_takeD)
    then show "fst g \<noteq> None \<and> fst g \<in> set col \<and> snd g = occurrences col (fst g)"
      unfolding sv by auto
  qed
  have "length vc = length (map fst vc)" by simp
  also have "\<dots> = card (set (map fst vc))" using dv by (simp only: distinct_card)
  also have "set (map fst vc) = set col - {None}" by (simp add: sv image_image)
  finally have l: "length (take 10 vc) = min 10 (card (set col - {None}))"
    by (simp add: min.commute)
  have x: "\<forall>k\<in>set col. k \<noteq> None \<and> k \<notin> fst ` set (take 10 vc) \<longrightarrow>
          (\<forall>g\<in>set (take 10 vc). occurrences col k \<le> snd g)"
  proof (intro ballI impI)
    fix k g assume k: "k \<in> set col" "k \<noteq> None \<and> k \<notin> fst ` set (take 10 vc)"
      and g: "g \<in> set (take 10 vc)"
    have "(k, occurrences col k) \<in> set vc" using k by (simp add: sv)
    then have "(k, occurrences col k) \<in> set (take 10 vc) \<union> set (drop 10 vc)"
      by (simp only: set_append [symmetric] append_take_drop_id)
    moreover have "(k, occurrences col k) \<notin> set (take 10 vc)" using k(2) by force
    ultimately have "(k, occurrences col k) \<in> set (drop 10 vc)" by blast
    moreover have "sorted_wrt (\<lambda>p q. snd q \<le> snd p) (take 10 vc @ drop 10 vc)"
      using ov by (simp only: append_take_drop_id)
    ultimately have "snd (k, occurrences col k) \<le> snd g"
      using g by (auto simp only: sorted_wrt_append)
    then show "occurrences col k \<le> snd g" by simp
  qed
  from s d e l x show ?thesis unfolding top_groups_by_count_def by blast
qed

lemma eleven_counts_listing: "count_desc_listing eleven_companies eleven_counts"
  by (simp add: count_desc_listing_def eleven_companies_def eleven_counts_def occurrences_def)
     (simp add: insert_commute)

lemma eleven_counts_top:
  "take 10 eleven_counts =
     [(Some ''K'', 1), (Some ''J'', 1), (Some ''I'', 1), (Some ''H'', 1), (Some ''G'', 1),
      (Some ''F'', 1), (Some ''E'', 1), (Some ''D'', 1), (Some ''C'', 1), (Some ''B'', 1)]"
  by (simp add: eleven_counts_def)

lemma comp_df_example: "comp_df example_table = [(Some ''A'', 2), (Some ''B'', 1)]"
  by (simp add: comp_df_def value_counts_def value_counts_by_def dropna_def example_table_def
      example_posting_def)

lemma title_df_example: "title_df example_table = [(Some ''Business Analyst'', 4)]"
  by (simp add: title_df_def value_counts_def value_counts_by_def dropna_def example_table_def
      example_posting_def)

text \<open>
  C3 (amended). The top-companies and top-job-titles tables hold ten groups, or all the
  groups when there are fewer than ten distinct present labels, each with its row count
  and ordered by count, largest first; no group left out has a larger count than a group
  listed. The same holds for the first ten rows of the table of counts in whatever order
  it lists equal counts; which order that is, is not stated.
\<close>

theorem top10_count_desc:
  "top_groups_by_count (map company_name df) (comp_df df)
   \<and> top_groups_by_count (map job_title df) (title_df df)
   \<and> (count_desc_listing col vc \<longrightarrow> top_groups_by_count col (take 10 vc))"
  unfolding comp_df_def title_df_def
  by (simp add: top_groups_take_listing value_counts_listing)

theorem top10_count_desc_witness:
  "comp_df example_table = [(Some ''A'', 2), (Some ''B'', 1)]
   \<and> top_groups_by_count (map company_name example_table) (comp_df example_table)
   \<and> title_df example_table = [(Some ''Business Analyst'', 4)]
   \<and> top_groups_by_count (map job_title example_table) (title_df example_table)
   \<and> count_desc_listing eleven_companies eleven_counts
   \<and> top_groups_by_count eleven_companies (take 10 eleven_counts)
   \<and> Some ''A'' \<in> set eleven_companies
   \<and> Some ''A'' \<notin> fst ` set (take 10 eleven_counts)
   \<and> occurrences eleven_companies (Some ''A'') \<le> snd (Some ''B'', 1 :: nat)"
proof -
  have t: "top_groups_by_count (map company_name example_table) (comp_df example_table)"
    and u: "top_groups_by_count (map job_title example_table) (title_df example_table)"
    and v: "top_groups_by_count eleven_companies (take 10 eleven_counts)"
    using top10_count_desc [of example_table eleven_companies eleven_counts]
      eleven_counts_listing by simp_all
  have a: "Some ''A'' \<in> set eleven_companies" by (simp add: eleven_companies_def)
  have n: "Some ''A'' \<notin> fst ` set (take 10 eleven_counts)"
    unfolding eleven_counts_top by simp
  have b: "(Some ''B'', 1) \<in> set (take 10 eleven_counts)"
    unfolding eleven_counts_top by simp
  have "occurrences eleven_companies (Some ''A'') \<le> snd (Some ''B'', 1 :: nat)"
    using v a n b unfolding top_groups_by_count_def by blast
  with t u v a n show ?thesis
    by (simp add: comp_df_example title_df_example eleven_counts_listing)
qed

text \<open>
  C3 as stated fails: with company \<open>B\<close> in the first row and company \<open>A\<close> in the second,
  both counts are 1 and the table lists \<open>B\<close> before \<open>A\<close>, so equal counts are not in the
  order of their labels.
\<close>

theorem comp_df_ties_not_by_label:
  "comp_df tie_table = [(Some ''B'', 1), (Some ''A'', 1)]
   \<and> \<not> sorted_wrt count_then_label (comp_df tie_table)"
  by (simp add: comp_df_def value_counts_def value_counts_by_def dropna_def tie_table_def
      example_posting_def count_then_label_def)

lemma loc_df_example: "loc_df example_table = [(Some ''NY'', 2), (Some ''LA'', 1)]"
  by (simp add: loc_df_def value_counts_def value_counts_by_def dropna_def example_table_def
      example_posting_def)

text \<open>
  C10. The counts by location leave out the rows whose location is absent: the counts add
  up to the number of rows with a present location, no group has the absent label, the
  labels are exactly the present locations, and each count is the number of rows with
  that location.
\<close>

theorem loc_df_excludes_absent:
  "sum_list (map snd (loc_df df)) = length (filter (\<lambda>r. location r \<noteq> None) df)
   \<and> None \<notin> fst ` set (loc_df df)
   \<and> fst ` set (loc_df df) = set (map location df) - {None}
   \<and> (\<forall>g\<in>set (loc_df df). snd g = length (filter (\<lambda>r. location r = fst g) df))"
proof -
  have 1: "sum_list (map snd (loc_df df)) = length (filter (\<lambda>r. location r \<noteq> None) df)"
    by (simp add: loc_df_def sum_value_counts dropna_def filter_map comp_def)
  have 3: "fst ` set (loc_df df) = set (map location df) - {None}"
    unfolding loc_df_def set_value_counts by (simp add: image_image)
  then have 2: "None \<notin> fst ` set (loc_df df)" by blast
  have 4: "\<forall>g\<in>set (loc_df df). snd g = length (filter (\<lambda>r. location r = fst g) df)"
    unfolding loc_df_def set_value_counts
    by (auto simp: occurrences_def filter_map comp_def)
  from 1 2 3 4 show ?thesis by blast
qed

theorem loc_df_excludes_absent_witness:
  "loc_df example_table = [(Some ''NY'', 2), (Some ''LA'', 1)]
   \<and> sum_list (map snd (loc_df example_table)) = 3
   \<and> length example_table = 4
   \<and> length (filter (\<lambda>r. location r \<noteq> None) example_table) = 3
   \<and> length (filter (\<lambda>r. location r = Some ''NY'') example_table) = 2"
  using loc_df_excludes_absent [of example_table]
  by (simp add: loc_df_example) (simp add: example_table_def example_posting_def)

section \<open>Metrics, the empty table and sentinels\<close>

lemma value_counts_by_Nil: "value_counts_by eq [] = []"
  by (simp add: value_counts_by_def dropna_def)

lemma filtered_example_empty:
  "filtered_df example_table
     \<lparr>location_sel = [''NY''], industry_sel = [''Health''], ownership_sel = []\<rparr> = []"
  by (simp add: filtered_df_def example_table_def example_posting_def isin_def)

text \<open>
  C6. When the filtered table has no rows, the four metrics are 0, 0, 0 and an absent
  mean rating (whatever the rounding does on numbers), and every table handed to a chart
  is empty. Each operation is a total function here, as the pandas operation it models
  returns on an empty frame.
\<close>

theorem empty_filter_result_degrades:
  assumes "filtered_df df c = []"
  shows "total_jobs (filtered_df df c) = 0
    \<and> companies (filtered_df df c) = 0
    \<and> locations (filtered_df df c) = 0
    \<and> avg_rating rnd (filtered_df df c) = None
    \<and> loc_df (filtered_df df c) = []
    \<and> comp_df (filtered_df df c) = []
    \<and> title_df (filtered_df df c) = []
    \<and> fig_ind_names (filtered_df df c) = []
    \<and> fig_sec_names (filtered_df df c) = []
    \<and> salary_df (filtered_df df c) = []
    \<and> easy_df (filtered_df df c) = []"
  unfolding assms
  by (simp add: total_jobs_def companies_def locations_def avg_rating_def loc_df_def comp_df_def
      title_df_def fig_ind_names_def fig_sec_names_def salary_df_def easy_df_def nunique_def
      dropna_def series_mean_def round2_def value_counts_def value_counts_by_Nil)

theorem empty_filter_result_degrades_witness:
  "filtered_df example_table
     \<lparr>location_sel = [''NY''], industry_sel = [''Health''], ownership_sel = []\<rparr> = []
   \<and> total_jobs [] = 0 \<and> companies [] = 0 \<and> locations [] = 0 \<and> avg_rating (\<lambda>q. q) [] = None
   \<and> loc_df [] = [] \<and> comp_df [] = [] \<and> title_df [] = [] \<and> fig_ind_names [] = []
   \<and> fig_sec_names [] = [] \<and> salary_df [] = [] \<and> easy_df [] = []"
  using empty_filter_result_degrades [OF filtered_example_empty, of "\<lambda>q. q"]
  by (simp only: filtered_example_empty)

text \<open>
  C4. The loader replaces a cell equal to -1 by \<open>False\<close> and leaves every other cell as it
  is: the integer 1 and the strings \<open>True\<close> and \<open>-1\<close> stay what they are and are no
  booleans, while -1 becomes \<open>False\<close> and \<open>True\<close> stays \<open>True\<close>.
\<close>

theorem easy_apply_other_values_unchanged:
  "easy_apply (load_row ((example_raw None)\<lparr>easy_apply := CInt 1\<rparr>)) = CInt 1
   \<and> \<not> is_boolean (easy_apply (load_row ((example_raw None)\<lparr>easy_apply := CInt 1\<rparr>)))
   \<and> easy_apply (load_row ((example_raw None)\<lparr>easy_apply := CStr ''True''\<rparr>)) = CStr ''True''
   \<and> easy_apply (load_row ((example_raw None)\<lparr>easy_apply := CStr ''-1''\<rparr>)) = CStr ''-1''
   \<and> easy_apply (load_row ((example_raw None)\<lparr>easy_apply := CInt (- 1)\<rparr>)) = CBool False
   \<and> easy_apply (load_row ((example_raw None)\<lparr>easy_apply := CBool True\<rparr>)) = CBool True"
  by (simp add: load_row_def raw_posting.extend_def example_raw_def replace_minus_one_def)

end
